theory Spec2Isabelle
  imports Main "HOL-Library.Word" "HOL-Library.Sublist"
begin

section \<open>JavaScript strings\<close>

text \<open>
  A JavaScript string is a sequence of UTF-16 code units. The regular expression of the
  chunker has no \<open>u\<close> flag, so it counts code units, as \<open>length\<close> does here.
\<close>

type_synonym jschar = "16 word"
type_synonym jsstring = "jschar list"
type_synonym byte = "8 word"

definition js :: "string \<Rightarrow> jsstring" where
  "js s = map of_char s"

text \<open>ECMAScript LineTerminator: LF, CR, LINE SEPARATOR, PARAGRAPH SEPARATOR.\<close>

definition isLineTerminator :: "jschar \<Rightarrow> bool" where
  "isLineTerminator c = (c = 0x000A \<or> c = 0x000D \<or> c = 0x2028 \<or> c = 0x2029)"

text \<open>ECMAScript WhiteSpace (TAB, VT, FF, SP, NBSP, ZWNBSP and category Zs).\<close>

definition isWhiteSpace :: "jschar \<Rightarrow> bool" where
  "isWhiteSpace c =
     (c = 0x0009 \<or> c = 0x000B \<or> c = 0x000C \<or> c = 0x0020 \<or> c = 0x00A0 \<or> c = 0xFEFF
      \<or> c = 0x1680 \<or> (0x2000 \<le> c \<and> c \<le> 0x200A) \<or> c = 0x202F \<or> c = 0x205F \<or> c = 0x3000)"

definition isTrimmed :: "jschar \<Rightarrow> bool" where
  "isTrimmed c = (isWhiteSpace c \<or> isLineTerminator c)"

text \<open>\<open>String.prototype.trim\<close>: white space and line terminators go from both ends.\<close>

definition trim :: "jsstring \<Rightarrow> jsstring" where
  "trim s = rev (dropWhile isTrimmed (rev (dropWhile isTrimmed s)))"

text \<open>\<open>String.prototype.includes\<close>: substring search.\<close>

fun startsWith :: "jsstring \<Rightarrow> jsstring \<Rightarrow> bool" where
  "startsWith s [] = True"
| "startsWith [] (y # ys) = False"
| "startsWith (x # xs) (y # ys) = (x = y \<and> startsWith xs ys)"

fun includes_js :: "jsstring \<Rightarrow> jsstring \<Rightarrow> bool" where
  "includes_js [] sub = (sub = [])"
| "includes_js (x # xs) sub = (startsWith (x # xs) sub \<or> includes_js xs sub)"

text \<open>\<open>Array.prototype.join\<close> on an array of strings.\<close>

fun join :: "jsstring \<Rightarrow> jsstring list \<Rightarrow> jsstring" where
  "join sep [] = []"
| "join sep [x] = x"
| "join sep (x # y # ys) = x @ sep @ join sep (y # ys)"

section \<open>JavaScript values\<close>

text \<open>
  The values a deserialised model response is made of: the primitives, arrays, and plain
  objects as the list of their own properties. Numbers are opaque (\<open>'n\<close>); what
  \<open>String\<close> makes of one is \<open>Number_toString\<close> of the environment below.
\<close>

datatype 'n jsval =
    JUndefined
  | JNull
  | JBool bool
  | JNum 'n
  | JStr jsstring
  | JArr "'n jsval list"
  | JObj "(jsstring \<times> 'n jsval) list"

text \<open>What \<open>throw\<close> carries: an \<open>Error\<close> with its message, or any other value, kept as
  its \<open>String\<close> rendering.\<close>

datatype thrown = JsError jsstring | NonError jsstring

text \<open>\<open>error instanceof Error ? error.message : String(error)\<close>\<close>

fun errorMessage :: "thrown \<Rightarrow> jsstring" where
  "errorMessage (JsError m) = m"
| "errorMessage (NonError s) = s"

text \<open>
  Reading property \<open>k\<close> of \<open>v\<close>: a \<open>TypeError\<close> on \<open>undefined\<close> and \<open>null\<close> (the message
  is V8's), the own property of a plain object, \<open>undefined\<close> otherwise.
\<close>

definition readTypeError :: "jsstring \<Rightarrow> jsstring \<Rightarrow> thrown" where
  "readTypeError what k =
     JsError (js ''Cannot read properties of '' @ what @ js '' (reading '' @ [0x27] @ k
              @ [0x27] @ js '')'')"

fun getProp :: "'n jsval \<Rightarrow> jsstring \<Rightarrow> thrown + 'n jsval" where
  "getProp JUndefined k = Inl (readTypeError (js ''undefined'') k)"
| "getProp JNull k = Inl (readTypeError (js ''null'') k)"
| "getProp (JObj kvs) k = Inr (case map_of kvs k of None \<Rightarrow> JUndefined | Some v \<Rightarrow> v)"
| "getProp v k = Inr JUndefined"

text \<open>\<open>k in v\<close> for a plain object: \<open>k\<close> is one of its own properties.\<close>

definition hasOwn :: "(jsstring \<times> 'n jsval) list \<Rightarrow> jsstring \<Rightarrow> bool" where
  "hasOwn kvs k = (map_of kvs k \<noteq> None)"

text \<open>
  \<open>String(v)\<close>, with \<open>num\<close> the rendering of numbers. A plain object is
  \<open>[object Object]\<close>, unless it has an own property \<open>toString\<close>: no value of a
  deserialised response is a function, so the conversion finds nothing to call and throws
  a \<open>TypeError\<close> (the message is V8's). An array joins the renderings of its elements
  with a comma, \<open>undefined\<close> and \<open>null\<close> elements rendering as the empty string, and throws
  where the first of its elements does.
\<close>

definition cannotConvert :: thrown where
  "cannotConvert = JsError (js ''Cannot convert object to primitive value'')"

fun toStr :: "('n \<Rightarrow> jsstring) \<Rightarrow> 'n jsval \<Rightarrow> thrown + jsstring"
  and toStrElements :: "('n \<Rightarrow> jsstring) \<Rightarrow> 'n jsval list \<Rightarrow> thrown + jsstring list" where
  "toStr num JUndefined = Inr (js ''undefined'')"
| "toStr num JNull = Inr (js ''null'')"
| "toStr num (JBool b) = Inr (if b then js ''true'' else js ''false'')"
| "toStr num (JNum n) = Inr (num n)"
| "toStr num (JStr s) = Inr s"
| "toStr num (JArr xs) =
     (case toStrElements num xs of Inl e \<Rightarrow> Inl e | Inr ss \<Rightarrow> Inr (join (js '','') ss))"
| "toStr num (JObj kvs) =
     (if hasOwn kvs (js ''toString'') then Inl cannotConvert else Inr (js ''[object Object]''))"
| "toStrElements num [] = Inr []"
| "toStrElements num (x # xs) =
     (case (if x = JUndefined \<or> x = JNull then Inr [] else toStr num x) of
        Inl e \<Rightarrow> Inl e
      | Inr s \<Rightarrow>
          (case toStrElements num xs of Inl e \<Rightarrow> Inl e | Inr ss \<Rightarrow> Inr (s # ss)))"

section \<open>Session cache, collaborators and effects\<close>

text \<open>
  \<open>sessionCache\<close> of \<open>actions.ts\<close>: every field optional, the initial value \<open>{}\<close>.
  The handles of the vector store, the model and the embeddings are opaque.
\<close>

record ('vs, 'llm, 'emb) sessionCache =
  vectorStore :: "'vs option"
  chain_field :: "'llm option"
  embeddings :: "'emb option"
  llm :: "'llm option"

definition emptyCache :: "('vs, 'llm, 'emb) sessionCache" where
  "emptyCache = \<lparr>vectorStore = None, chain_field = None, embeddings = None, llm = None\<rparr>"

text \<open>The calls into parsing libraries and collaborators, in the order they are made.\<close>

datatype call =
    PdfParse
  | RequirePdf2json
  | SetTimeout nat
  | ParseBuffer
  | MammothExtractRawText
  | NewChatGroq
  | NewFakeEmbeddings
  | NewBufferMemory
  | FromTexts "jsstring list" "nat list"
  | GetRelevantDocuments nat jsstring
  | Invoke "(jsstring \<times> jsstring) list"

record ('vs, 'llm, 'emb) world =
  cache :: "('vs, 'llm, 'emb) sessionCache"
  trace :: "call list"

text \<open>The page tree that pdf2json hands to \<open>pdfParser_dataReady\<close>; \<open>None\<close> is a field
  that is missing or not an array.\<close>

datatype textRun = TextRun (run_T: jsstring)
datatype pdfText = PdfText (text_R: "textRun list option")
datatype pdfPage = PdfPage (page_Texts: "pdfText list option")
datatype pdfData = PdfData (data_Pages: "pdfPage list option")

text \<open>
  What settles the promise of the pdf2json path first: the 30 second timer, one of the two
  parser events, or an exception of \<open>parseBuffer\<close> inside the executor.
\<close>

datatype pdf2json_outcome =
    TimerFires
  | DataError jsstring
  | DataReady pdfData
  | ParseBufferThrows thrown

text \<open>
  The libraries and remote collaborators, as the outcomes of their calls:
  \<open>pdf_parse\<close> gives \<open>pdfData.text\<close> and \<open>mammoth_extractRawText\<close> gives \<open>result.value\<close>
  (\<open>None\<close> when absent), \<open>require_pdf2json\<close> is the exception of loading or constructing
  the parser, if any, \<open>decodeURIComponent\<close> is \<open>None\<close> where it throws, \<open>toString_utf8\<close>
  is \<open>buffer.toString("utf-8")\<close>, \<open>Number_toString\<close> is \<open>String\<close> on a number, and
  \<open>JSON_stringify\<close> is \<open>JSON.stringify\<close>.
\<close>

record ('vs, 'llm, 'emb, 'n) env =
  pdf_parse :: "byte list \<Rightarrow> thrown + jsstring option"
  require_pdf2json :: "thrown option"
  pdf2json :: "byte list \<Rightarrow> pdf2json_outcome"
  decodeURIComponent :: "jsstring \<Rightarrow> jsstring option"
  toString_utf8 :: "byte list \<Rightarrow> jsstring"
  mammoth_extractRawText :: "byte list \<Rightarrow> thrown + jsstring option"
  ChatGroq_new :: "thrown + 'llm"
  FakeEmbeddings_new :: "thrown + 'emb"
  BufferMemory_new :: "thrown + unit"
  MemoryVectorStore_fromTexts :: "jsstring list \<Rightarrow> nat list \<Rightarrow> 'emb \<Rightarrow> thrown + 'vs"
  getRelevantDocuments :: "'vs \<Rightarrow> nat \<Rightarrow> jsstring \<Rightarrow> thrown + jsstring list"
  llm_invoke :: "'llm \<Rightarrow> (jsstring \<times> jsstring) list \<Rightarrow> thrown + 'n jsval"
  Number_toString :: "'n \<Rightarrow> jsstring"
  JSON_stringify :: "'n jsval \<Rightarrow> jsstring"

text \<open>Computations: they read and write the world and either return or throw.\<close>

type_synonym ('vs, 'llm, 'emb, 'a) jsm =
  "('vs, 'llm, 'emb) world \<Rightarrow> (thrown + 'a) \<times> ('vs, 'llm, 'emb) world"

definition ret :: "'a \<Rightarrow> ('vs, 'llm, 'emb, 'a) jsm" where
  "ret x = (\<lambda>w. (Inr x, w))"

definition throw :: "thrown \<Rightarrow> ('vs, 'llm, 'emb, 'a) jsm" where
  "throw e = (\<lambda>w. (Inl e, w))"

definition bind :: "('vs, 'llm, 'emb, 'a) jsm \<Rightarrow> ('a \<Rightarrow> ('vs, 'llm, 'emb, 'b) jsm)
    \<Rightarrow> ('vs, 'llm, 'emb, 'b) jsm" where
  "bind m f = (\<lambda>w. case m w of (Inl e, w') \<Rightarrow> (Inl e, w') | (Inr x, w') \<Rightarrow> f x w')"

definition try_catch :: "('vs, 'llm, 'emb, 'a) jsm \<Rightarrow> (thrown \<Rightarrow> ('vs, 'llm, 'emb, 'a) jsm)
    \<Rightarrow> ('vs, 'llm, 'emb, 'a) jsm" where
  "try_catch m h = (\<lambda>w. case m w of (Inl e, w') \<Rightarrow> h e w' | (Inr x, w') \<Rightarrow> (Inr x, w'))"

definition callOut :: "call \<Rightarrow> thrown + 'a \<Rightarrow> ('vs, 'llm, 'emb, 'a) jsm" where
  "callOut c outcome = (\<lambda>w. (outcome, w\<lparr>trace := trace w @ [c]\<rparr>))"

definition setCache :: "('vs, 'llm, 'emb) sessionCache \<Rightarrow> ('vs, 'llm, 'emb, unit) jsm" where
  "setCache c = (\<lambda>w. (Inr (), w\<lparr>cache := c\<rparr>))"

definition getCache :: "('vs, 'llm, 'emb, ('vs, 'llm, 'emb) sessionCache) jsm" where
  "getCache = (\<lambda>w. (Inr (cache w), w))"

section \<open>Text extraction\<close>

text \<open>An uploaded \<open>File\<close>: the declared MIME type and the bytes of \<open>arrayBuffer()\<close>.\<close>

record jsfile =
  file_type :: jsstring
  file_bytes :: "byte list"

definition emptyPdfMessage :: jsstring where
  "emptyPdfMessage = js ''PDF appears to be empty or contains no extractable text''"

definition emptyDocxMessage :: jsstring where
  "emptyDocxMessage = js ''DOCX appears to be empty or contains no extractable text''"

definition timeoutMessage :: jsstring where
  "timeoutMessage = js ''PDF parsing timeout - the file may be too large or corrupted''"

definition encryptedMessage :: jsstring where
  "encryptedMessage =
     js ''This PDF appears to be password-protected or encrypted. Please remove the password and try again.''"

definition unsupportedMessage :: jsstring where
  "unsupportedMessage = js ''Unsupported file type''"

definition docxMime :: jsstring where
  "docxMime = js ''application/vnd.openxmlformats-officedocument.wordprocessingml.document''"

text \<open>
  The \<open>pdfParser_dataReady\<close> handler: every run with a non-empty \<open>T\<close> is decoded
  (\<open>decodeURIComponent\<close>, the run as it is when decoding throws) and followed by a
  space; every page with a \<open>Texts\<close> array ends with a newline. On a page tree of
  this shape nothing in the handler throws, so its own \<open>catch\<close> has no case here.
\<close>

definition runText :: "('vs, 'llm, 'emb, 'n) env \<Rightarrow> textRun \<Rightarrow> jsstring" where
  "runText env run =
     (if run_T run = [] then []
      else case decodeURIComponent env (run_T run) of
             Some decoded \<Rightarrow> decoded @ js '' ''
           | None \<Rightarrow> run_T run @ js '' '')"

definition textText :: "('vs, 'llm, 'emb, 'n) env \<Rightarrow> pdfText \<Rightarrow> jsstring" where
  "textText env text =
     (case text_R text of None \<Rightarrow> [] | Some runs \<Rightarrow> concat (map (runText env) runs))"

definition pageText :: "('vs, 'llm, 'emb, 'n) env \<Rightarrow> pdfPage \<Rightarrow> jsstring" where
  "pageText env page =
     (case page_Texts page of
        None \<Rightarrow> []
      | Some texts \<Rightarrow> concat (map (textText env) texts) @ [0x000A])"

definition fullText :: "('vs, 'llm, 'emb, 'n) env \<Rightarrow> pdfData \<Rightarrow> jsstring" where
  "fullText env pdfData =
     (case data_Pages pdfData of None \<Rightarrow> [] | Some pages \<Rightarrow> concat (map (pageText env) pages))"

text \<open>
  The promise of the pdf2json path. The executor arms the timer and starts the parser;
  whatever comes first settles the promise. Its rejection is not seen by the \<open>try\<close>
  around it, which the function leaves with \<open>return\<close> before the promise settles.
\<close>

definition pdf2jsonPromise :: "('vs, 'llm, 'emb, 'n) env \<Rightarrow> byte list \<Rightarrow> ('vs, 'llm, 'emb, jsstring) jsm" where
  "pdf2jsonPromise env buffer =
     bind (callOut (SetTimeout 30000) (Inr ())) (\<lambda>_.
     bind (callOut ParseBuffer (Inr ())) (\<lambda>_.
       case pdf2json env buffer of
         TimerFires \<Rightarrow> throw (JsError timeoutMessage)
       | DataError parserError \<Rightarrow> throw (JsError (js ''PDF parsing error: '' @ parserError))
       | DataReady pdfData \<Rightarrow>
           (if length (trim (fullText env pdfData)) = 0 then throw (JsError emptyPdfMessage)
            else ret (trim (fullText env pdfData)))
       | ParseBufferThrows e \<Rightarrow> throw e))"

definition fallbackFailedMessage :: "jsstring \<Rightarrow> jsstring \<Rightarrow> jsstring" where
  "fallbackFailedMessage errorMsg fallbackErrorMsg =
     js ''PDF parsing failed due to file structure issues (bad XRef entry). ''
     @ js ''This may happen with certain PDF formats. ''
     @ js ''Please try: 1) Re-saving the PDF in a different application, ''
     @ js ''2) Converting to DOCX or TXT format, or 3) Using a different PDF file. ''
     @ js ''Technical details: '' @ errorMsg @ js ''. Fallback error: '' @ fallbackErrorMsg"

definition pdf2jsonFallback :: "('vs, 'llm, 'emb, 'n) env \<Rightarrow> byte list \<Rightarrow> jsstring
    \<Rightarrow> ('vs, 'llm, 'emb, jsstring) jsm" where
  "pdf2jsonFallback env buffer errorMsg =
     bind
       (try_catch
          (callOut RequirePdf2json
             (case require_pdf2json env of Some e \<Rightarrow> Inl e | None \<Rightarrow> Inr ()))
          (\<lambda>fallbackError.
             throw (JsError (fallbackFailedMessage errorMsg (errorMessage fallbackError)))))
       (\<lambda>_. pdf2jsonPromise env buffer)"

definition extractText :: "('vs, 'llm, 'emb, 'n) env \<Rightarrow> jsfile \<Rightarrow> ('vs, 'llm, 'emb, jsstring) jsm" where
  "extractText env file =
     (let buffer = file_bytes file in
      if file_type file = js ''application/pdf'' then
        try_catch
          (bind (callOut PdfParse (pdf_parse env buffer)) (\<lambda>text.
             case text of
               None \<Rightarrow> throw (JsError emptyPdfMessage)
             | Some t \<Rightarrow>
                 if length (trim t) = 0 then throw (JsError emptyPdfMessage) else ret t))
          (\<lambda>error.
             let errorMsg = errorMessage error in
             if includes_js errorMsg (js ''XRef'') \<or> includes_js errorMsg (js ''xref'') then
               pdf2jsonFallback env buffer errorMsg
             else if includes_js errorMsg (js ''password'')
                     \<or> includes_js errorMsg (js ''encrypted'') then
               throw (JsError encryptedMessage)
             else
               throw (JsError
                 (js ''Failed to parse PDF. The file may be corrupted or in an unsupported format: ''
                  @ errorMsg)))
      else if file_type file = js ''text/plain'' then
        ret (toString_utf8 env buffer)
      else if file_type file = docxMime then
        try_catch
          (bind (callOut MammothExtractRawText (mammoth_extractRawText env buffer)) (\<lambda>val.
             case val of
               None \<Rightarrow> throw (JsError emptyDocxMessage)
             | Some v \<Rightarrow>
                 if length (trim v) = 0 then throw (JsError emptyDocxMessage) else ret v))
          (\<lambda>error.
             throw (JsError (js ''Failed to parse DOCX file: '' @ errorMessage error)))
      else
        throw (JsError unsupportedMessage))"

section \<open>Chunking\<close>

text \<open>
  \<open>text.match(/.{1,n}/g) || []\<close>: from the left, the longest run of at most \<open>n\<close> code
  units none of which is a line terminator; where no run starts (at a line terminator)
  the search moves one code unit to the right.
\<close>

definition dot :: "jschar \<Rightarrow> bool" where
  "dot c = (\<not> isLineTerminator c)"

function matchAll :: "nat \<Rightarrow> jsstring \<Rightarrow> jsstring list" where
  "matchAll n t =
     (if t = [] then []
      else let m = takeWhile dot (take n t)
           in if m = [] then matchAll n (tl t)
              else m # matchAll n (drop (length m) t))"
  by pat_completeness auto
termination
  by (relation "measure (\<lambda>(n, t). length t)") (auto simp: Let_def)

definition chunker :: "jsstring \<Rightarrow> jsstring list" where
  "chunker text =
     (let allChunks = matchAll 1000 text
      in if length allChunks > 50 then take 50 allChunks else allChunks)"

section \<open>Upload\<close>

text \<open>\<open>createGroqAgent\<close> of \<open>lib/langchain.ts\<close>; the chain is the model itself.\<close>

definition createGroqAgent :: "('vs, 'llm, 'emb, 'n) env \<Rightarrow> ('vs, 'llm, 'emb, 'llm \<times> 'emb \<times> 'llm) jsm" where
  "createGroqAgent env =
     bind (callOut NewChatGroq (ChatGroq_new env)) (\<lambda>l.
     bind (callOut NewFakeEmbeddings (FakeEmbeddings_new env)) (\<lambda>emb.
     bind (callOut NewBufferMemory (BufferMemory_new env)) (\<lambda>memory.
       ret (l, emb, l))))"

definition successMessage :: jsstring where
  "successMessage = js ''Document uploaded and processed successfully!''"

definition noFileMessage :: jsstring where
  "noFileMessage = js ''No file provided''"

definition extractFailedPrefix :: jsstring where
  "extractFailedPrefix = js ''Failed to extract text from document: ''"

definition processFailedPrefix :: jsstring where
  "processFailedPrefix = js ''Failed to process document: ''"

text \<open>
  \<open>handlePdfUpload\<close>; the argument is \<open>formData.get("file")\<close>, \<open>None\<close> when the form has
  no such entry. The first \<open>try\<close> either yields the text or returns from the function
  with the failure string (\<open>Inl\<close>).
\<close>

definition handlePdfUpload :: "('vs, 'llm, 'emb, 'n) env \<Rightarrow> jsfile option \<Rightarrow> ('vs, 'llm, 'emb, jsstring) jsm" where
  "handlePdfUpload env formFile =
     (case formFile of
        None \<Rightarrow> ret noFileMessage
      | Some file \<Rightarrow>
          bind
            (try_catch
               (bind (extractText env file) (\<lambda>text. ret (Inr text)))
               (\<lambda>error. ret (Inl (extractFailedPrefix @ errorMessage error))))
            (\<lambda>r. case r of
               Inl failure \<Rightarrow> ret failure
             | Inr text \<Rightarrow>
                 (let chunks = chunker text in
                  try_catch
                    (bind (createGroqAgent env) (\<lambda>(chain, emb, l).
                     bind (callOut (FromTexts chunks [0..<length chunks])
                             (MemoryVectorStore_fromTexts env chunks [0..<length chunks] emb))
                       (\<lambda>vs.
                     bind (setCache \<lparr>vectorStore = Some vs, chain_field = Some chain,
                                      embeddings = Some emb, llm = Some l\<rparr>) (\<lambda>_.
                       ret successMessage))))
                    (\<lambda>error. ret (processFailedPrefix @ errorMessage error)))))"

section \<open>Chat\<close>

definition guidanceMessage :: jsstring where
  "guidanceMessage = js ''Please upload a document first.''"

definition systemPrompt :: jsstring where
  "systemPrompt =
     js ''You are a helpful assistant that answers questions based on the provided context from a document.''"

definition userMessage :: "jsstring \<Rightarrow> jsstring \<Rightarrow> jsstring" where
  "userMessage context message =
     js ''Based on the following context from the document, answer the question:''
     @ [0x000A, 0x000A] @ js ''Context:'' @ [0x000A] @ context
     @ [0x000A, 0x000A] @ js ''Question: '' @ message
     @ [0x000A, 0x000A] @ js ''Answer:''"

text \<open>
  One part of an array content, the callback of \<open>content.map\<close>: a string as it is, an
  object with a \<open>text\<close> property as \<open>String\<close> of it, anything else as the empty string.
\<close>

fun partText :: "('n \<Rightarrow> jsstring) \<Rightarrow> 'n jsval \<Rightarrow> thrown + jsstring" where
  "partText num (JStr s) = Inr s"
| "partText num (JObj kvs) =
     (case map_of kvs (js ''text'') of Some v \<Rightarrow> toStr num v | None \<Rightarrow> Inr [])"
| "partText num v = Inr []"

text \<open>\<open>Array.prototype.map\<close> with a callback that may throw: the parts are visited in
  order, and the first exception ends the visit.\<close>

fun mapParts :: "('a \<Rightarrow> thrown + 'b) \<Rightarrow> 'a list \<Rightarrow> thrown + 'b list" where
  "mapParts f [] = Inr []"
| "mapParts f (x # xs) =
     (case f x of
        Inl e \<Rightarrow> Inl e
      | Inr y \<Rightarrow> (case mapParts f xs of Inl e \<Rightarrow> Inl e | Inr ys \<Rightarrow> Inr (y # ys)))"

text \<open>
  The normalisation of the response at the end of \<open>chatWithBot\<close>: \<open>contentAnswer\<close> is
  the part that looks at \<open>response.content\<close>, the last case being
  \<open>String(content) || JSON.stringify(response)\<close>.
\<close>

definition contentAnswer :: "('vs, 'llm, 'emb, 'n) env \<Rightarrow> 'n jsval \<Rightarrow> 'n jsval
    \<Rightarrow> thrown + jsstring" where
  "contentAnswer env response content =
     (case content of
        JStr s \<Rightarrow> Inr s
      | JArr parts \<Rightarrow>
          (case mapParts (partText (Number_toString env)) parts of
             Inl e \<Rightarrow> Inl e
           | Inr texts \<Rightarrow> Inr (join [] texts))
      | _ \<Rightarrow>
          (case toStr (Number_toString env) content of
             Inl e \<Rightarrow> Inl e
           | Inr s \<Rightarrow> Inr (if s \<noteq> [] then s else JSON_stringify env response)))"

definition normalizeResponse :: "('vs, 'llm, 'emb, 'n) env \<Rightarrow> 'n jsval \<Rightarrow> thrown + jsstring" where
  "normalizeResponse env response =
     (case response of
        JStr s \<Rightarrow> Inr s
      | _ \<Rightarrow>
          (case getProp response (js ''content'') of
             Inl e \<Rightarrow> Inl e
           | Inr content \<Rightarrow> contentAnswer env response content))"

definition chatWithBot :: "('vs, 'llm, 'emb, 'n) env \<Rightarrow> jsstring \<Rightarrow> ('vs, 'llm, 'emb, jsstring) jsm" where
  "chatWithBot env message =
     bind getCache (\<lambda>sessionCache.
       case (vectorStore sessionCache, llm sessionCache) of
         (Some vs, Some l) \<Rightarrow>
           bind (callOut (GetRelevantDocuments 3 message)
                   (getRelevantDocuments env vs 3 message)) (\<lambda>docs.
             let context = join [0x000A, 0x000A] docs;
                 messages = [(js ''system'', systemPrompt),
                             (js ''user'', userMessage context message)] in
             bind (callOut (Invoke messages) (llm_invoke env l messages)) (\<lambda>response.
               (\<lambda>w. (normalizeResponse env response, w))))
       | _ \<Rightarrow> ret guidanceMessage)"

section \<open>Sample runs\<close>

text \<open>
  One behaviour of the collaborators, to run the functions on: the parsers find the text
  \<open>hello\<close>, pdf2json loads and then stays silent until the timer fires, bytes decode as
  ASCII, the model answers \<open>ok\<close>. Handles are numbers; the vector store is the number
  of its chunks. The only JavaScript number is 7.
\<close>

definition demoEnv :: "(nat, nat, nat, unit) env" where
  "demoEnv =
     \<lparr>pdf_parse = (\<lambda>_. Inr (Some (js ''hello''))),
      require_pdf2json = None,
      pdf2json = (\<lambda>_. TimerFires),
      decodeURIComponent = Some,
      toString_utf8 = map ucast,
      mammoth_extractRawText = (\<lambda>_. Inr (Some (js ''hello''))),
      ChatGroq_new = Inr 1,
      FakeEmbeddings_new = Inr 2,
      BufferMemory_new = Inr (),
      MemoryVectorStore_fromTexts = (\<lambda>chunks ids emb. Inr (length chunks)),
      getRelevantDocuments = (\<lambda>vs k q. Inr []),
      llm_invoke = (\<lambda>l messages. Inr (JObj [(js ''content'', JStr (js ''ok''))])),
      Number_toString = (\<lambda>n. js ''7''),
      JSON_stringify = (\<lambda>v. js ''{}'')\<rparr>"

text \<open>The process before any upload, and after an upload of one chunk.\<close>

definition world0 :: "(nat, nat, nat) world" where
  "world0 = \<lparr>cache = emptyCache, trace = []\<rparr>"

definition loadedWorld :: "(nat, nat, nat) world" where
  "loadedWorld =
     \<lparr>cache = \<lparr>vectorStore = Some 1, chain_field = Some 1, embeddings = Some 2, llm = Some 1\<rparr>,
      trace = []\<rparr>"

definition txtFile :: jsfile where
  "txtFile = \<lparr>file_type = js ''text/plain'', file_bytes = [0x68, 0x69]\<rparr>"

definition emptyTxtFile :: jsfile where
  "emptyTxtFile = \<lparr>file_type = js ''text/plain'', file_bytes = []\<rparr>"

definition blankTxtFile :: jsfile where
  "blankTxtFile = \<lparr>file_type = js ''text/plain'', file_bytes = [0x20, 0x0A]\<rparr>"

definition pngFile :: jsfile where
  "pngFile = \<lparr>file_type = js ''image/png'', file_bytes = [0x89, 0x50, 0x4E, 0x47]\<rparr>"

definition pdfFile :: jsfile where
  "pdfFile = \<lparr>file_type = js ''application/pdf'', file_bytes = [0x25, 0x50, 0x44, 0x46]\<rparr>"

text \<open>The same collaborators with another outcome of pdf-parse, of the model, or of the
  model's constructor.\<close>

definition pdfFailsWith :: "jsstring \<Rightarrow> (nat, nat, nat, unit) env" where
  "pdfFailsWith m = demoEnv\<lparr>pdf_parse := (\<lambda>_. Inl (JsError m))\<rparr>"

definition modelAnswers :: "unit jsval \<Rightarrow> (nat, nat, nat, unit) env" where
  "modelAnswers response = demoEnv\<lparr>llm_invoke := (\<lambda>l messages. Inr response)\<rparr>"

definition noApiKeyEnv :: "(nat, nat, nat, unit) env" where
  "noApiKeyEnv = demoEnv\<lparr>ChatGroq_new := Inl (JsError (js ''missing API key''))\<rparr>"

section \<open>Properties of the chunker\<close>

declare matchAll.simps [simp del]

lemma matchAll_Nil: "matchAll n [] = []"
  by (simp add: matchAll.simps)

lemma matchAll_bound:
  "c \<in> set (matchAll n t) \<Longrightarrow> length c \<le> n \<and> c \<noteq> []"
proof (induction n t rule: matchAll.induct)
  case (1 n t)
  show ?case
  proof (cases "t = []")
    case True
    with "1.prems" show ?thesis by (simp add: matchAll_Nil)
  next
    case False
    define m where "m = takeWhile dot (take n t)"
    show ?thesis
    proof (cases "m = []")
      case True
      with False "1.prems" have "c \<in> set (matchAll n (tl t))"
        by (simp add: matchAll.simps [of n t] m_def)
      with "1.IH"(1) [OF False m_def True] show ?thesis .
    next
      case nonempty: False
      with False "1.prems" have "c = m \<or> c \<in> set (matchAll n (drop (length m) t))"
        by (simp add: matchAll.simps [of n t] m_def Let_def)
      then show ?thesis
      proof
        assume "c = m"
        have "length m \<le> length (take n t)" unfolding m_def by (rule length_takeWhile_le)
        then show ?thesis using nonempty \<open>c = m\<close> by simp
      next
        assume "c \<in> set (matchAll n (drop (length m) t))"
        with "1.IH"(2) [OF False m_def nonempty] show ?thesis .
      qed
    qed
  qed
qed

text \<open>The matches, put together again, are the text without its line terminators.\<close>

lemma matchAll_concat: "0 < n \<Longrightarrow> concat (matchAll n t) = filter dot t"
proof (induction n t rule: matchAll.induct)
  case (1 n t)
  show ?case
  proof (cases "t = []")
    case True
    then show ?thesis by (simp add: matchAll_Nil)
  next
    case False
    define m where "m = takeWhile dot (take n t)"
    show ?thesis
    proof (cases "m = []")
      case True
      from False obtain x xs where t: "t = x # xs" by (cases t) auto
      from \<open>0 < n\<close> obtain k where n: "n = Suc k" by (cases n) auto
      from True have "\<not> dot x" by (auto simp: m_def t n split: if_splits)
      moreover have "concat (matchAll n t) = concat (matchAll n (tl t))"
        using False True by (simp add: matchAll.simps [of n t] m_def)
      ultimately show ?thesis
        using "1.IH"(1) [OF False m_def True \<open>0 < n\<close>] by (simp add: t)
    next
      case nonempty: False
      have split: "t = m @ drop (length m) t"
      proof -
        have "take n t = m @ dropWhile dot (take n t)" by (simp add: m_def)
        then have "take (length m) (take n t) = m" by (metis append_eq_conv_conj)
        moreover have "length m \<le> n"
          using length_takeWhile_le [of dot "take n t"] by (simp add: m_def)
        ultimately have "take (length m) t = m" by (simp add: min_def)
        then show ?thesis by (metis append_take_drop_id)
      qed
      have "filter dot m = m"
        by (auto simp: m_def filter_id_conv dest: set_takeWhileD)
      then have "filter dot t = m @ filter dot (drop (length m) t)"
        by (metis split filter_append)
      moreover have "concat (matchAll n t) = m @ concat (matchAll n (drop (length m) t))"
        using False nonempty by (simp add: matchAll.simps [of n t] m_def Let_def)
      ultimately show ?thesis
        using "1.IH"(2) [OF False m_def nonempty \<open>0 < n\<close>] by simp
    qed
  qed
qed

lemma concat_take_prefix: "prefix (concat (take k xs)) (concat xs)"
proof -
  have "concat xs = concat (take k xs) @ concat (drop k xs)"
    by (metis append_take_drop_id concat_append)
  then show ?thesis by (metis prefixI)
qed

lemma length_concat_bound:
  "(\<And>c. c \<in> set xs \<Longrightarrow> length c \<le> n) \<Longrightarrow> length (concat xs) \<le> length xs * n"
  by (induction xs) (auto simp: add_le_mono)

lemma chunker_take: "chunker T = take 50 (matchAll 1000 T)"
  by (simp add: chunker_def Let_def)

lemma chunker_chunk_length: "c \<in> set (chunker T) \<Longrightarrow> length c \<le> 1000"
  unfolding chunker_take by (blast dest: in_set_takeD matchAll_bound)

text \<open>Two texts to run the chunker on: two short lines, and 51 lines of one letter.\<close>

lemma matchAll_two_lines: "matchAll 1000 [0x61, 0x0A, 0x62] = [[0x61], [0x62]]"
  by (simp add: matchAll.simps dot_def isLineTerminator_def)

lemma matchAll_line: "matchAll 1000 (0x61 # 0x0A # rest) = [0x61] # matchAll 1000 rest"
proof -
  have "matchAll 1000 (0x61 # 0x0A # rest) = [0x61] # matchAll 1000 (0x0A # rest)"
    by (simp add: matchAll.simps [of 1000 "0x61 # 0x0A # rest"] dot_def isLineTerminator_def)
  also have "matchAll 1000 (0x0A # rest) = matchAll 1000 rest"
    by (simp add: matchAll.simps [of 1000 "0x0A # rest"] dot_def isLineTerminator_def)
  finally show ?thesis .
qed

lemma matchAll_lines: "matchAll 1000 (concat (replicate k [0x61, 0x0A])) = replicate k [0x61]"
  by (induction k) (simp_all add: matchAll_line matchAll_Nil)

lemma not_prefix_lines:
  "\<not> prefix (replicate (Suc (Suc n)) (0x61 :: jschar))
       (concat (replicate (Suc m) [0x61, 0x0A]))"
  by simp

lemma not_prefix_51_lines:
  "\<not> prefix (replicate 50 (0x61 :: jschar)) (concat (replicate 51 [0x61, 0x0A]))"
proof -
  have a: "(50::nat) = Suc (Suc 48)" and b: "(51::nat) = Suc (Suc (Suc 48))" by simp_all
  show ?thesis unfolding a b by (rule not_prefix_lines)
qed

text \<open>
  C6. Every chunk has at most 1000 code units, there are at most 50 chunks, and the
  chunks are the first 50 matches, in order.
\<close>

theorem chunker_bounds:
  "(\<forall>c \<in> set (chunker T). length c \<le> 1000) \<and> length (chunker T) \<le> 50
   \<and> chunker T = take 50 (matchAll 1000 T)"
  using chunker_chunk_length [of _ T] by (simp add: chunker_take)

theorem chunker_bounds_witness:
  "[0x62] \<in> set (chunker [0x61, 0x0A, 0x62]) \<and> length ([0x62] :: jsstring) \<le> 1000
   \<and> length (chunker [0x61, 0x0A, 0x62]) \<le> 50
   \<and> chunker [0x61, 0x0A, 0x62] = take 50 (matchAll 1000 [0x61, 0x0A, 0x62])"
  using chunker_bounds [of "[0x61, 0x0A, 0x62]"]
  by (simp add: chunker_take matchAll_two_lines)

text \<open>
  What the chunker does in general: with at most 50 matches the chunks concatenate to the
  text without its line terminators; with more, the 50 chunks concatenate to a prefix of
  that, of at most 50000 code units.
\<close>

lemma chunker_concat:
  "(length (matchAll 1000 T) \<le> 50 \<longrightarrow>
      concat (chunker T) = filter (\<lambda>c. \<not> isLineTerminator c) T)
   \<and> (50 < length (matchAll 1000 T) \<longrightarrow>
      prefix (concat (chunker T)) (filter (\<lambda>c. \<not> isLineTerminator c) T)
      \<and> length (concat (chunker T)) \<le> 50000)"
proof -
  have dot: "filter (\<lambda>c. \<not> isLineTerminator c) T = filter dot T"
    by (simp add: dot_def [abs_def])
  have whole: "concat (matchAll 1000 T) = filter dot T"
    by (rule matchAll_concat) simp
  have "prefix (concat (chunker T)) (filter dot T)"
    unfolding chunker_take using concat_take_prefix [of 50 "matchAll 1000 T"] whole by simp
  moreover have "length (concat (chunker T)) \<le> length (chunker T) * 1000"
    by (rule length_concat_bound) (rule chunker_chunk_length)
  then have "length (concat (chunker T)) \<le> 50000"
    using mult_le_mono1 [of "length (chunker T)" 50 1000] by (simp add: chunker_take)
  moreover have "length (matchAll 1000 T) \<le> 50 \<Longrightarrow> concat (chunker T) = filter dot T"
    using whole by (simp add: chunker_take)
  ultimately show ?thesis
    unfolding dot by simp
qed

text \<open>
  C1 on the code: the dot of \<open>/.{1,1000}/g\<close> does not match a line terminator, so the
  chunks end at every line end and the line terminators are in no chunk. The text
  \<open>a\nb\<close> gives the two chunks \<open>a\<close> and \<open>b\<close>, which concatenate to \<open>ab\<close>; a text
  of 51 lines of one letter (102 code units) gives 51 matches, of which the 50 kept
  concatenate to 50 letters, which is not a prefix of the text.
\<close>

theorem chunker_drops_line_terminators:
  "chunker [0x61, 0x0A, 0x62] = [[0x61], [0x62]]
   \<and> length (matchAll 1000 [0x61, 0x0A, 0x62]) \<le> 50
   \<and> concat (chunker [0x61, 0x0A, 0x62]) \<noteq> [0x61, 0x0A, 0x62]
   \<and> length (concat (replicate 51 [0x61, 0x0A :: jschar])) = 102
   \<and> 50 < length (matchAll 1000 (concat (replicate 51 [0x61, 0x0A])))
   \<and> concat (chunker (concat (replicate 51 [0x61, 0x0A]))) = replicate 50 0x61
   \<and> \<not> prefix (concat (chunker (concat (replicate 51 [0x61, 0x0A]))))
         (concat (replicate 51 [0x61, 0x0A]))"
proof -
  have kept: "concat (chunker (concat (replicate 51 [0x61, 0x0A]))) = replicate 50 0x61"
    by (simp add: chunker_take matchAll_lines)
  have len: "length (concat (replicate 51 [0x61, 0x0A :: jschar])) = 102"
    by (simp add: length_concat sum_list_replicate)
  have "\<not> prefix (replicate 50 (0x61 :: jschar)) (concat (replicate 51 [0x61, 0x0A]))"
    by (rule not_prefix_51_lines)
  then show ?thesis
    by (simp add: kept len chunker_take matchAll_two_lines matchAll_lines)
qed

section \<open>Running the computations\<close>

lemma ret_app: "ret x w = (Inr x, w)"
  by (simp add: ret_def)

lemma throw_app: "throw e w = (Inl e, w)"
  by (simp add: throw_def)

lemma bind_app:
  "bind m f w = (case m w of (Inl e, w') \<Rightarrow> (Inl e, w') | (Inr x, w') \<Rightarrow> f x w')"
  by (simp add: bind_def)

lemma try_catch_app:
  "try_catch m h w = (case m w of (Inl e, w') \<Rightarrow> h e w' | (Inr x, w') \<Rightarrow> (Inr x, w'))"
  by (simp add: try_catch_def)

lemma callOut_app: "callOut c outcome w = (outcome, w\<lparr>trace := trace w @ [c]\<rparr>)"
  by (simp add: callOut_def)

lemma setCache_app: "setCache c w = (Inr (), w\<lparr>cache := c\<rparr>)"
  by (simp add: setCache_def)

lemma getCache_app: "getCache w = (Inr (cache w), w)"
  by (simp add: getCache_def)

lemmas jsm_app =
  ret_app throw_app bind_app try_catch_app callOut_app setCache_app getCache_app

subsection \<open>Substrings\<close>

lemma startsWith_append: "startsWith (s @ t) s"
  by (induction s) simp_all

lemma includes_js_self: "includes_js (sub @ b) sub"
proof (cases "sub @ b")
  case Nil
  then show ?thesis by simp
next
  case (Cons x xs)
  have "startsWith (sub @ b) sub" by (rule startsWith_append)
  then show ?thesis unfolding Cons by simp
qed

lemma includes_js_append: "includes_js s sub \<Longrightarrow> includes_js (a @ s) sub"
  by (induction a) simp_all

lemma timeout_in_message: "includes_js (p @ timeoutMessage) (js ''timeout'')"
proof -
  have "timeoutMessage =
      js ''PDF parsing '' @ (js ''timeout'' @ js '' - the file may be too large or corrupted'')"
    by (simp add: timeoutMessage_def js_def)
  then show ?thesis
    by (metis includes_js_append includes_js_self)
qed

subsection \<open>The paths of \<open>extractText\<close>\<close>

lemma pdf2jsonPromise_run:
  "pdf2jsonPromise env buffer w =
     (case pdf2json env buffer of
        TimerFires \<Rightarrow> Inl (JsError timeoutMessage)
      | DataError parserError \<Rightarrow> Inl (JsError (js ''PDF parsing error: '' @ parserError))
      | DataReady pdfData \<Rightarrow>
          (if trim (fullText env pdfData) = [] then Inl (JsError emptyPdfMessage)
           else Inr (trim (fullText env pdfData)))
      | ParseBufferThrows e \<Rightarrow> Inl e,
      w\<lparr>trace := trace w @ [SetTimeout 30000, ParseBuffer]\<rparr>)"
  by (simp add: pdf2jsonPromise_def jsm_app split: pdf2json_outcome.splits)

lemma pdf2jsonFallback_run:
  "pdf2jsonFallback env buffer m w =
     (case require_pdf2json env of
        Some fe \<Rightarrow>
          (Inl (JsError (fallbackFailedMessage m (errorMessage fe))),
           w\<lparr>trace := trace w @ [RequirePdf2json]\<rparr>)
      | None \<Rightarrow> pdf2jsonPromise env buffer (w\<lparr>trace := trace w @ [RequirePdf2json]\<rparr>))"
  by (simp add: pdf2jsonFallback_def jsm_app split: option.splits)

lemma pdf2jsonFallback_cache: "cache (snd (pdf2jsonFallback env buffer m w)) = cache w"
  by (simp add: pdf2jsonFallback_run pdf2jsonPromise_run split: option.splits)

lemma extractText_pdf_failed:
  assumes "file_type f = js ''application/pdf''" and "pdf_parse env (file_bytes f) = Inl e"
  shows "extractText env f w =
     (if includes_js (errorMessage e) (js ''XRef'') \<or> includes_js (errorMessage e) (js ''xref'')
      then pdf2jsonFallback env (file_bytes f) (errorMessage e)
             (w\<lparr>trace := trace w @ [PdfParse]\<rparr>)
      else if includes_js (errorMessage e) (js ''password'')
              \<or> includes_js (errorMessage e) (js ''encrypted'')
      then (Inl (JsError encryptedMessage), w\<lparr>trace := trace w @ [PdfParse]\<rparr>)
      else (Inl (JsError
             (js ''Failed to parse PDF. The file may be corrupted or in an unsupported format: ''
              @ errorMessage e)), w\<lparr>trace := trace w @ [PdfParse]\<rparr>))"
  using assms by (simp add: extractText_def jsm_app Let_def)

lemma emptyPdfMessage_class:
  "\<not> includes_js emptyPdfMessage (js ''XRef'')"
  "\<not> includes_js emptyPdfMessage (js ''xref'')"
  "\<not> includes_js emptyPdfMessage (js ''password'')"
  "\<not> includes_js emptyPdfMessage (js ''encrypted'')"
  by (simp_all add: emptyPdfMessage_def js_def)

text \<open>The PDF and the DOCX path refuse a text that is missing, empty or all white space.\<close>

lemma extractText_pdf_parsed:
  assumes "file_type f = js ''application/pdf''" and "pdf_parse env (file_bytes f) = Inr t"
  shows "extractText env f w =
     (case t of
        None \<Rightarrow> Inl (JsError
          (js ''Failed to parse PDF. The file may be corrupted or in an unsupported format: ''
           @ emptyPdfMessage))
      | Some s \<Rightarrow>
          if trim s = [] then Inl (JsError
            (js ''Failed to parse PDF. The file may be corrupted or in an unsupported format: ''
             @ emptyPdfMessage))
          else Inr s,
      w\<lparr>trace := trace w @ [PdfParse]\<rparr>)"
  using assms
  by (simp add: extractText_def jsm_app Let_def emptyPdfMessage_class split: option.splits)

lemma extractText_docx:
  assumes "file_type f = docxMime"
  shows "extractText env f w =
     (case mammoth_extractRawText env (file_bytes f) of
        Inl e \<Rightarrow> Inl (JsError (js ''Failed to parse DOCX file: '' @ errorMessage e))
      | Inr None \<Rightarrow> Inl (JsError (js ''Failed to parse DOCX file: '' @ emptyDocxMessage))
      | Inr (Some v) \<Rightarrow>
          if trim v = [] then Inl (JsError (js ''Failed to parse DOCX file: '' @ emptyDocxMessage))
          else Inr v,
      w\<lparr>trace := trace w @ [MammothExtractRawText]\<rparr>)"
proof -
  have "docxMime \<noteq> js ''application/pdf''" "docxMime \<noteq> js ''text/plain''"
    by (simp_all add: docxMime_def js_def)
  with assms show ?thesis
    by (simp add: extractText_def jsm_app Let_def split: option.splits sum.splits)
qed

lemma extractText_plain:
  assumes "file_type f = js ''text/plain''"
  shows "extractText env f w = (Inr (toString_utf8 env (file_bytes f)), w)"
proof -
  have "js ''text/plain'' \<noteq> js ''application/pdf''" by (simp add: js_def)
  with assms show ?thesis by (simp add: extractText_def jsm_app)
qed

lemma extractText_other:
  assumes "file_type f \<noteq> js ''application/pdf''" and "file_type f \<noteq> js ''text/plain''"
    and "file_type f \<noteq> docxMime"
  shows "extractText env f w = (Inl (JsError unsupportedMessage), w)"
  using assms by (simp add: extractText_def jsm_app)

lemma extractText_cache: "cache (snd (extractText env f w)) = cache w"
proof -
  consider (pdf) "file_type f = js ''application/pdf''"
    | (plain) "file_type f = js ''text/plain''"
    | (docx) "file_type f = docxMime"
    | (other) "file_type f \<noteq> js ''application/pdf''" "file_type f \<noteq> js ''text/plain''"
        "file_type f \<noteq> docxMime"
    by blast
  then show ?thesis
  proof cases
    case pdf
    show ?thesis
    proof (cases "pdf_parse env (file_bytes f)")
      case (Inl e)
      show ?thesis
        by (simp add: extractText_pdf_failed [OF pdf Inl] pdf2jsonFallback_cache)
    next
      case (Inr t)
      show ?thesis
        by (simp add: extractText_pdf_parsed [OF pdf Inr] split: option.splits)
    qed
  next
    case plain
    then show ?thesis by (simp add: extractText_plain)
  next
    case docx
    then show ?thesis
      by (simp add: extractText_docx split: option.splits sum.splits)
  next
    case other
    then show ?thesis by (simp add: extractText_other)
  qed
qed

lemma extractText_cacheD: "extractText env f w = (x, w1) \<Longrightarrow> cache w1 = cache w"
  using extractText_cache [of env f w] by simp

subsection \<open>The paths of \<open>handlePdfUpload\<close>\<close>

lemma createGroqAgent_cache: "cache (snd (createGroqAgent env w)) = cache w"
  by (simp add: createGroqAgent_def jsm_app split: sum.splits)

lemma createGroqAgent_cacheD: "createGroqAgent env w1 = (a, w2) \<Longrightarrow> cache w2 = cache w1"
  using createGroqAgent_cache [of env w1] by simp

lemma handlePdfUpload_run:
  "handlePdfUpload env formFile w =
     (case formFile of
        None \<Rightarrow> (Inr noFileMessage, w)
      | Some f \<Rightarrow>
          (case extractText env f w of
             (Inl e, w1) \<Rightarrow> (Inr (extractFailedPrefix @ errorMessage e), w1)
           | (Inr extracted, w1) \<Rightarrow>
               (case createGroqAgent env w1 of
                  (Inl e, w2) \<Rightarrow> (Inr (processFailedPrefix @ errorMessage e), w2)
                | (Inr (chain, emb, l), w2) \<Rightarrow>
                    (case MemoryVectorStore_fromTexts env (chunker extracted)
                            [0..<length (chunker extracted)] emb of
                       Inl e \<Rightarrow>
                         (Inr (processFailedPrefix @ errorMessage e),
                          w2\<lparr>trace := trace w2 @
                             [FromTexts (chunker extracted) [0..<length (chunker extracted)]]\<rparr>)
                     | Inr vs \<Rightarrow>
                         (Inr successMessage,
                          w2\<lparr>trace := trace w2 @
                             [FromTexts (chunker extracted) [0..<length (chunker extracted)]],
                             cache := \<lparr>vectorStore = Some vs, chain_field = Some chain,
                                        embeddings = Some emb, llm = Some l\<rparr>\<rparr>)))))"
  by (simp add: handlePdfUpload_def jsm_app Let_def split: option.splits sum.splits prod.splits)

lemma failure_is_not_success:
  "extractFailedPrefix @ m \<noteq> successMessage"
  "processFailedPrefix @ m \<noteq> successMessage"
  "noFileMessage \<noteq> successMessage"
  by (simp_all add: extractFailedPrefix_def processFailedPrefix_def successMessage_def
      noFileMessage_def js_def)

subsection \<open>The paths of \<open>chatWithBot\<close>\<close>

lemma chatWithBot_run:
  "chatWithBot env q w =
     (case (vectorStore (cache w), llm (cache w)) of
        (Some vs, Some l) \<Rightarrow>
          (case getRelevantDocuments env vs 3 q of
             Inl e \<Rightarrow> (Inl e, w\<lparr>trace := trace w @ [GetRelevantDocuments 3 q]\<rparr>)
           | Inr docs \<Rightarrow>
               (case llm_invoke env l
                       [(js ''system'', systemPrompt),
                        (js ''user'', userMessage (join [0x000A, 0x000A] docs) q)] of
                  Inl e \<Rightarrow>
                    (Inl e, w\<lparr>trace := trace w @ [GetRelevantDocuments 3 q,
                       Invoke [(js ''system'', systemPrompt),
                               (js ''user'', userMessage (join [0x000A, 0x000A] docs) q)]]\<rparr>)
                | Inr response \<Rightarrow>
                    (normalizeResponse env response,
                     w\<lparr>trace := trace w @ [GetRelevantDocuments 3 q,
                       Invoke [(js ''system'', systemPrompt),
                               (js ''user'', userMessage (join [0x000A, 0x000A] docs) q)]]\<rparr>)))
      | _ \<Rightarrow> (Inr guidanceMessage, w))"
  by (simp add: chatWithBot_def jsm_app Let_def split: option.splits sum.splits)

lemma chatWithBot_cache_only:
  "cache w' = cache w \<Longrightarrow> fst (chatWithBot env q w') = fst (chatWithBot env q w)"
  by (simp add: chatWithBot_run split: option.splits sum.splits)

lemma chatWithBot_answered:
  assumes "vectorStore (cache w) = Some vs" and "llm (cache w) = Some l"
    and "getRelevantDocuments env vs 3 q = Inr docs"
    and "llm_invoke env l
           [(js ''system'', systemPrompt),
            (js ''user'', userMessage (join [0x000A, 0x000A] docs) q)] = Inr response"
  shows "fst (chatWithBot env q w) = normalizeResponse env response"
  using assms by (simp add: chatWithBot_run)

lemma normalizeResponse_string: "normalizeResponse env (JStr s) = Inr s"
  by (simp add: normalizeResponse_def)

lemma normalizeResponse_content:
  assumes "\<And>s. response \<noteq> JStr s" and "getProp response (js ''content'') = Inr content"
  shows "normalizeResponse env response = contentAnswer env response content"
proof (cases response)
  case (JStr s)
  with assms(1) [of s] show ?thesis by simp
qed (use assms(2) in \<open>simp_all add: normalizeResponse_def\<close>)

lemma contentAnswer_string: "contentAnswer env response (JStr c) = Inr c"
  by (simp add: contentAnswer_def)

lemma join_empty_separator: "join [] texts = concat texts"
  by (induction "[] :: jsstring" texts rule: join.induct) simp_all

lemma contentAnswer_array:
  "contentAnswer env response (JArr parts) =
     (case mapParts (partText (Number_toString env)) parts of
        Inl e \<Rightarrow> Inl e
      | Inr texts \<Rightarrow> Inr (concat texts))"
  by (simp add: contentAnswer_def join_empty_separator split: sum.splits)

subsection \<open>The sample runs\<close>

lemma pngFile_type:
  "file_type pngFile \<noteq> js ''application/pdf''" "file_type pngFile \<noteq> js ''text/plain''"
  "file_type pngFile \<noteq> js ''application/vnd.openxmlformats-officedocument.wordprocessingml.document''"
  by (simp_all add: pngFile_def js_def)

lemma extractText_txtFile: "extractText env txtFile w = (Inr (toString_utf8 env [0x68, 0x69]), w)"
  by (simp add: extractText_plain txtFile_def)

lemma chunker_hi: "chunker [0x68, 0x69] = [[0x68, 0x69]]"
  by (simp add: chunker_take matchAll.simps dot_def isLineTerminator_def)

lemma createGroqAgent_demoEnv:
  "createGroqAgent demoEnv w =
     (Inr (1, 2, 1), w\<lparr>trace := trace w @ [NewChatGroq, NewFakeEmbeddings, NewBufferMemory]\<rparr>)"
  by (simp add: createGroqAgent_def jsm_app demoEnv_def)

lemma fromTexts_demoEnv:
  "MemoryVectorStore_fromTexts demoEnv chunks ids emb = Inr (length chunks)"
  by (simp add: demoEnv_def)

lemma pdfFailsWith_sel:
  "pdf_parse (pdfFailsWith m) b = Inl (JsError m)"
  "require_pdf2json (pdfFailsWith m) = None"
  "pdf2json (pdfFailsWith m) b = TimerFires"
  by (simp_all add: pdfFailsWith_def demoEnv_def)

lemma handlePdfUpload_txtFile:
  "handlePdfUpload demoEnv (Some txtFile) world0 =
     (Inr successMessage,
      \<lparr>cache = \<lparr>vectorStore = Some 1, chain_field = Some 1, embeddings = Some 2,
                 llm = Some 1\<rparr>,
       trace = [NewChatGroq, NewFakeEmbeddings, NewBufferMemory,
                FromTexts [[0x68, 0x69]] [0]]\<rparr>)"
proof -
  have "toString_utf8 demoEnv [0x68, 0x69] = [0x68, 0x69]"
    by (simp add: demoEnv_def)
  then show ?thesis
    by (simp add: handlePdfUpload_run extractText_txtFile createGroqAgent_demoEnv chunker_hi
        fromTexts_demoEnv world0_def)
qed

lemma handlePdfUpload_pngFile:
  "handlePdfUpload env (Some pngFile) w = (Inr (extractFailedPrefix @ unsupportedMessage), w)"
  using pngFile_type
  by (simp add: handlePdfUpload_run extractText_other docxMime_def)

lemma extractFailed_unsupported:
  "extractFailedPrefix @ unsupportedMessage =
     js ''Failed to extract text from document: Unsupported file type''"
  by (simp add: extractFailedPrefix_def unsupportedMessage_def js_def)

lemma extractFailed_timeout:
  "extractFailedPrefix @ timeoutMessage =
     js ''Failed to extract text from document: PDF parsing timeout - the file may be too large or corrupted''"
  by (simp add: extractFailedPrefix_def timeoutMessage_def js_def)

section \<open>Properties of the upload and of the chat\<close>

text \<open>
  C5. When the session cache holds no vector store or no model handle, \<open>chatWithBot\<close>
  returns the guidance string verbatim and leaves the world as it is: no call to the
  retrieval index or to the model is recorded.
\<close>

theorem chatWithBot_no_document:
  assumes "vectorStore (cache w) = None \<or> llm (cache w) = None"
  shows "chatWithBot env message w = (Inr (js ''Please upload a document first.''), w)"
  using assms by (auto simp: chatWithBot_run guidanceMessage_def split: option.splits)

theorem chatWithBot_no_document_witness:
  "vectorStore (cache world0) = None
   \<and> chatWithBot demoEnv (js ''why?'') world0
       = (Inr (js ''Please upload a document first.''), world0)"
proof -
  have none: "vectorStore (cache world0) = None"
    by (simp add: world0_def emptyCache_def)
  then have "vectorStore (cache world0) = None \<or> llm (cache world0) = None" ..
  from chatWithBot_no_document [OF this] none show ?thesis by simp
qed

text \<open>
  C7. A file whose declared type is none of the three supported ones makes \<open>extractText\<close>
  throw \<open>Unsupported file type\<close> with no parser called, and the upload returns the
  failure string built from it.
\<close>

theorem extractText_unsupported:
  assumes "file_type f \<noteq> js ''application/pdf''" and "file_type f \<noteq> js ''text/plain''"
    and "file_type f
           \<noteq> js ''application/vnd.openxmlformats-officedocument.wordprocessingml.document''"
  shows "extractText env f w = (Inl (JsError (js ''Unsupported file type'')), w)"
  using assms by (simp add: extractText_other docxMime_def unsupportedMessage_def)

theorem extractText_unsupported_witness:
  "file_type pngFile = js ''image/png''
   \<and> extractText demoEnv pngFile world0 = (Inl (JsError (js ''Unsupported file type'')), world0)"
  using extractText_unsupported [OF pngFile_type, of demoEnv world0]
  by (simp add: pngFile_def)

text \<open>
  C8. When pdf-parse fails with a message that contains \<open>XRef\<close> or \<open>xref\<close>, pdf2json is
  loaded, and unless loading throws, the parser is started right after a 30000 ms timer
  is armed. When the timer fires first, the upload returns a failure string that contains
  \<open>timeout\<close>.
\<close>

theorem xref_fallback_timeout:
  assumes "file_type f = js ''application/pdf''" and "pdf_parse env (file_bytes f) = Inl e"
    and "includes_js (errorMessage e) (js ''XRef'') \<or> includes_js (errorMessage e) (js ''xref'')"
  shows "trace (snd (extractText env f w)) =
           trace w @ [PdfParse, RequirePdf2json]
           @ (if require_pdf2json env = None then [SetTimeout 30000, ParseBuffer] else [])
     \<and> (require_pdf2json env = None \<and> pdf2json env (file_bytes f) = TimerFires \<longrightarrow>
          fst (handlePdfUpload env (Some f) w) =
            Inr (js ''Failed to extract text from document: PDF parsing timeout - the file may be too large or corrupted'')
          \<and> includes_js
              (js ''Failed to extract text from document: PDF parsing timeout - the file may be too large or corrupted'')
              (js ''timeout''))"
proof -
  have run: "extractText env f w =
      pdf2jsonFallback env (file_bytes f) (errorMessage e) (w\<lparr>trace := trace w @ [PdfParse]\<rparr>)"
    using assms(3) by (simp add: extractText_pdf_failed [OF assms(1,2)])
  have "trace (snd (extractText env f w)) =
           trace w @ [PdfParse, RequirePdf2json]
           @ (if require_pdf2json env = None then [SetTimeout 30000, ParseBuffer] else [])"
    by (simp add: run pdf2jsonFallback_run pdf2jsonPromise_run split: option.splits)
  moreover have "fst (handlePdfUpload env (Some f) w) = Inr (extractFailedPrefix @ timeoutMessage)"
    if "require_pdf2json env = None" "pdf2json env (file_bytes f) = TimerFires"
    using that by (simp add: handlePdfUpload_run run pdf2jsonFallback_run pdf2jsonPromise_run)
  moreover have "includes_js (extractFailedPrefix @ timeoutMessage) (js ''timeout'')"
    by (rule timeout_in_message)
  ultimately show ?thesis
    by (simp add: extractFailed_timeout)
qed

theorem xref_fallback_timeout_witness:
  "includes_js (js ''bad XRef entry'') (js ''XRef'')
   \<and> trace (snd (extractText (pdfFailsWith (js ''bad XRef entry'')) pdfFile world0))
       = [PdfParse, RequirePdf2json, SetTimeout 30000, ParseBuffer]
   \<and> fst (handlePdfUpload (pdfFailsWith (js ''bad XRef entry'')) (Some pdfFile) world0)
       = Inr (js ''Failed to extract text from document: PDF parsing timeout - the file may be too large or corrupted'')"
proof -
  have pdf: "file_type pdfFile = js ''application/pdf''"
    by (simp add: pdfFile_def)
  have failed: "pdf_parse (pdfFailsWith (js ''bad XRef entry'')) (file_bytes pdfFile)
      = Inl (JsError (js ''bad XRef entry''))"
    by (rule pdfFailsWith_sel)
  have xref: "includes_js (js ''bad XRef entry'') (js ''XRef'')"
    by (simp add: js_def)
  then have "includes_js (errorMessage (JsError (js ''bad XRef entry''))) (js ''XRef'')
      \<or> includes_js (errorMessage (JsError (js ''bad XRef entry''))) (js ''xref'')"
    by simp
  from xref_fallback_timeout [OF pdf failed this, of world0] xref show ?thesis
    by (simp add: pdfFailsWith_sel world0_def)
qed

text \<open>
  C9, as stated, fails: \<open>encrypted XRef stream\<close> mentions encryption, but the test for
  \<open>XRef\<close> comes first, so pdf2json is tried and the error is the one of its timer.
\<close>

theorem encrypted_xref_counterexample:
  "includes_js (js ''encrypted XRef stream'') (js ''encrypted'')
   \<and> extractText (pdfFailsWith (js ''encrypted XRef stream'')) pdfFile world0
       = (Inl (JsError timeoutMessage),
          world0\<lparr>trace := [PdfParse, RequirePdf2json, SetTimeout 30000, ParseBuffer]\<rparr>)
   \<and> timeoutMessage \<noteq> encryptedMessage"
proof -
  have "includes_js (js ''encrypted XRef stream'') (js ''encrypted'')"
    and "includes_js (js ''encrypted XRef stream'') (js ''XRef'')"
    by (simp_all add: js_def)
  moreover have "timeoutMessage \<noteq> encryptedMessage"
    by (simp add: timeoutMessage_def encryptedMessage_def js_def)
  moreover have "file_type pdfFile = js ''application/pdf''"
    by (simp add: pdfFile_def)
  ultimately show ?thesis
    by (simp add: extractText_pdf_failed pdf2jsonFallback_run pdf2jsonPromise_run
        pdfFailsWith_sel) (simp add: world0_def)
qed

text \<open>
  C9, amended. When pdf-parse fails with a message that contains \<open>password\<close> or
  \<open>encrypted\<close> and neither \<open>XRef\<close> nor \<open>xref\<close>, \<open>extractText\<close> throws the
  password-protected error, and pdf-parse is the only parser called.
\<close>

theorem encrypted_pdf_not_retried:
  assumes "file_type f = js ''application/pdf''" and "pdf_parse env (file_bytes f) = Inl e"
    and "includes_js (errorMessage e) (js ''password'')
         \<or> includes_js (errorMessage e) (js ''encrypted'')"
    and "\<not> includes_js (errorMessage e) (js ''XRef'')"
    and "\<not> includes_js (errorMessage e) (js ''xref'')"
  shows "extractText env f w =
     (Inl (JsError (js ''This PDF appears to be password-protected or encrypted. Please remove the password and try again.'')),
      w\<lparr>trace := trace w @ [PdfParse]\<rparr>)"
  using assms(3-5) by (simp add: extractText_pdf_failed [OF assms(1,2)] encryptedMessage_def)

theorem encrypted_pdf_not_retried_witness:
  "includes_js (js ''No password given'') (js ''password'')
   \<and> extractText (pdfFailsWith (js ''No password given'')) pdfFile world0 =
     (Inl (JsError (js ''This PDF appears to be password-protected or encrypted. Please remove the password and try again.'')),
      world0\<lparr>trace := [PdfParse]\<rparr>)"
proof -
  have pdf: "file_type pdfFile = js ''application/pdf''"
    by (simp add: pdfFile_def)
  have failed: "pdf_parse (pdfFailsWith (js ''No password given'')) (file_bytes pdfFile)
      = Inl (JsError (js ''No password given''))"
    by (rule pdfFailsWith_sel)
  have pw: "includes_js (js ''No password given'') (js ''password'')"
    by (simp add: js_def)
  then have h3: "includes_js (errorMessage (JsError (js ''No password given''))) (js ''password'')
      \<or> includes_js (errorMessage (JsError (js ''No password given''))) (js ''encrypted'')"
    by simp
  have h4: "\<not> includes_js (errorMessage (JsError (js ''No password given''))) (js ''XRef'')"
    and h5: "\<not> includes_js (errorMessage (JsError (js ''No password given''))) (js ''xref'')"
    by (simp_all add: js_def)
  from encrypted_pdf_not_retried [OF pdf failed h3 h4 h5, of world0] pw show ?thesis
    by (simp add: world0_def)
qed

text \<open>
  C4. \<open>handlePdfUpload\<close> always returns a string: without a file the fixed
  \<open>No file provided\<close>; when \<open>extractText\<close> throws, \<open>Failed to extract text from
  document:\<close> and the message; when \<open>createGroqAgent\<close> or the vector store throws,
  \<open>Failed to process document:\<close> and the message; otherwise the fixed success string.
\<close>

theorem handlePdfUpload_never_throws:
  "(\<exists>s w'. handlePdfUpload env formFile w = (Inr s, w'))
   \<and> handlePdfUpload env formFile w =
     (case formFile of
        None \<Rightarrow> (Inr (js ''No file provided''), w)
      | Some f \<Rightarrow>
          (case extractText env f w of
             (Inl e, w1) \<Rightarrow>
               (Inr (js ''Failed to extract text from document: '' @ errorMessage e), w1)
           | (Inr extracted, w1) \<Rightarrow>
               (case createGroqAgent env w1 of
                  (Inl e, w2) \<Rightarrow> (Inr (js ''Failed to process document: '' @ errorMessage e), w2)
                | (Inr (chain, emb, l), w2) \<Rightarrow>
                    (case MemoryVectorStore_fromTexts env (chunker extracted)
                            [0..<length (chunker extracted)] emb of
                       Inl e \<Rightarrow>
                         (Inr (js ''Failed to process document: '' @ errorMessage e),
                          w2\<lparr>trace := trace w2 @
                             [FromTexts (chunker extracted) [0..<length (chunker extracted)]]\<rparr>)
                     | Inr vs \<Rightarrow>
                         (Inr (js ''Document uploaded and processed successfully!''),
                          w2\<lparr>trace := trace w2 @
                             [FromTexts (chunker extracted) [0..<length (chunker extracted)]],
                             cache := \<lparr>vectorStore = Some vs, chain_field = Some chain,
                                        embeddings = Some emb, llm = Some l\<rparr>\<rparr>)))))"
proof -
  have returns: "\<exists>s w'. handlePdfUpload env formFile w = (Inr s, w')"
    by (simp add: handlePdfUpload_run split: option.splits sum.splits prod.splits)
  have run: "handlePdfUpload env formFile w =
     (case formFile of
        None \<Rightarrow> (Inr (js ''No file provided''), w)
      | Some f \<Rightarrow>
          (case extractText env f w of
             (Inl e, w1) \<Rightarrow>
               (Inr (js ''Failed to extract text from document: '' @ errorMessage e), w1)
           | (Inr extracted, w1) \<Rightarrow>
               (case createGroqAgent env w1 of
                  (Inl e, w2) \<Rightarrow> (Inr (js ''Failed to process document: '' @ errorMessage e), w2)
                | (Inr (chain, emb, l), w2) \<Rightarrow>
                    (case MemoryVectorStore_fromTexts env (chunker extracted)
                            [0..<length (chunker extracted)] emb of
                       Inl e \<Rightarrow>
                         (Inr (js ''Failed to process document: '' @ errorMessage e),
                          w2\<lparr>trace := trace w2 @
                             [FromTexts (chunker extracted) [0..<length (chunker extracted)]]\<rparr>)
                     | Inr vs \<Rightarrow>
                         (Inr (js ''Document uploaded and processed successfully!''),
                          w2\<lparr>trace := trace w2 @
                             [FromTexts (chunker extracted) [0..<length (chunker extracted)]],
                             cache := \<lparr>vectorStore = Some vs, chain_field = Some chain,
                                        embeddings = Some emb, llm = Some l\<rparr>\<rparr>)))))"
    unfolding handlePdfUpload_run noFileMessage_def extractFailedPrefix_def
      processFailedPrefix_def successMessage_def by (rule refl)
  show ?thesis
    by (rule conjI [OF returns run])
qed

theorem handlePdfUpload_never_throws_witness:
  "handlePdfUpload demoEnv (Some pngFile) world0
     = (Inr (js ''Failed to extract text from document: Unsupported file type''), world0)
   \<and> fst (handlePdfUpload noApiKeyEnv (Some txtFile) world0)
     = Inr (js ''Failed to process document: missing API key'')
   \<and> fst (handlePdfUpload demoEnv (Some txtFile) world0)
     = Inr (js ''Document uploaded and processed successfully!'')"
proof -
  have png: "extractText demoEnv pngFile world0 = (Inl (JsError unsupportedMessage), world0)"
    using pngFile_type by (simp add: extractText_other docxMime_def)
  have agent: "createGroqAgent noApiKeyEnv world0
      = (Inl (JsError (js ''missing API key'')), world0\<lparr>trace := [NewChatGroq]\<rparr>)"
    by (simp add: createGroqAgent_def jsm_app noApiKeyEnv_def demoEnv_def world0_def)
  have decode: "toString_utf8 demoEnv [0x68, 0x69] = [0x68, 0x69]"
    by (simp add: demoEnv_def)
  have "handlePdfUpload demoEnv (Some pngFile) world0
     = (Inr (js ''Failed to extract text from document: Unsupported file type''), world0)"
    using handlePdfUpload_never_throws [of demoEnv "Some pngFile" world0]
    by (simp add: png unsupportedMessage_def js_def)
  moreover have "fst (handlePdfUpload noApiKeyEnv (Some txtFile) world0)
     = Inr (js ''Failed to process document: missing API key'')"
    using handlePdfUpload_never_throws [of noApiKeyEnv "Some txtFile" world0]
    by (simp add: extractText_txtFile agent js_def)
  moreover have "fst (handlePdfUpload demoEnv (Some txtFile) world0)
     = Inr (js ''Document uploaded and processed successfully!'')"
    using handlePdfUpload_never_throws [of demoEnv "Some txtFile" world0]
    by (simp add: extractText_txtFile createGroqAgent_demoEnv decode chunker_hi
        fromTexts_demoEnv)
  ultimately show ?thesis by simp
qed

text \<open>
  C10. An upload that does not return the success string leaves the session cache as it
  was, so \<open>chatWithBot\<close> answers from it as before; and the cache changes only when the
  success string is returned, to the vector store that \<open>fromTexts\<close> has returned and the
  handles of \<open>createGroqAgent\<close>.
\<close>

theorem handlePdfUpload_failure_keeps_cache:
  assumes "handlePdfUpload env formFile w = (r, w')"
  shows "(r \<noteq> Inr successMessage \<longrightarrow>
            cache w' = cache w \<and> fst (chatWithBot env q w') = fst (chatWithBot env q w))
         \<and> (cache w' \<noteq> cache w \<longrightarrow>
            r = Inr successMessage
            \<and> (\<exists>f extracted w1 chain emb l w2 vs. formFile = Some f
                  \<and> extractText env f w = (Inr extracted, w1)
                  \<and> createGroqAgent env w1 = (Inr (chain, emb, l), w2)
                  \<and> MemoryVectorStore_fromTexts env (chunker extracted)
                        [0..<length (chunker extracted)] emb = Inr vs
                  \<and> cache w' = \<lparr>vectorStore = Some vs, chain_field = Some chain,
                                   embeddings = Some emb, llm = Some l\<rparr>))"
proof -
  have kept: "cache w' = cache w \<Longrightarrow> ?thesis"
    using chatWithBot_cache_only [of w' w env q] by simp
  show ?thesis
  proof (cases formFile)
    case None
    with assms have "w' = w" by (simp add: handlePdfUpload_run)
    then show ?thesis by (intro kept) simp
  next
    case (Some f)
    obtain x w1 where ex: "extractText env f w = (x, w1)" by (cases "extractText env f w")
    have c1: "cache w1 = cache w" by (rule extractText_cacheD [OF ex])
    show ?thesis
    proof (cases x)
      case (Inl e)
      have "w' = w1" using assms by (simp add: handlePdfUpload_run Some ex Inl)
      then show ?thesis by (intro kept) (simp add: c1)
    next
      case (Inr extracted)
      obtain a w2 where ag: "createGroqAgent env w1 = (a, w2)"
        by (cases "createGroqAgent env w1")
      have c2: "cache w2 = cache w" using createGroqAgent_cacheD [OF ag] c1 by simp
      show ?thesis
      proof (cases a)
        case (Inl e)
        have "w' = w2" using assms by (simp add: handlePdfUpload_run Some ex Inr ag Inl)
        then show ?thesis by (intro kept) (simp add: c2)
      next
        case agent: (Inr triple)
        obtain chain emb l where triple: "triple = (chain, emb, l)" by (cases triple)
        let ?chunks = "chunker extracted"
        show ?thesis
        proof (cases "MemoryVectorStore_fromTexts env ?chunks [0..<length ?chunks] emb")
          case (Inl e)
          have "w' = w2\<lparr>trace := trace w2 @ [FromTexts ?chunks [0..<length ?chunks]]\<rparr>"
            using assms by (simp add: handlePdfUpload_run Some ex Inr ag agent triple Inl)
          then have "cache w' = cache w" by (simp add: c2)
          then show ?thesis by (rule kept)
        next
          case store: (Inr vs)
          have res: "r = Inr successMessage"
            and new: "cache w' = \<lparr>vectorStore = Some vs, chain_field = Some chain,
                                   embeddings = Some emb, llm = Some l\<rparr>"
            using assms by (auto simp: handlePdfUpload_run Some ex Inr ag agent triple store)
          have "\<exists>f extracted w1 chain emb l w2 vs. formFile = Some f
                  \<and> extractText env f w = (Inr extracted, w1)
                  \<and> createGroqAgent env w1 = (Inr (chain, emb, l), w2)
                  \<and> MemoryVectorStore_fromTexts env (chunker extracted)
                        [0..<length (chunker extracted)] emb = Inr vs
                  \<and> cache w' = \<lparr>vectorStore = Some vs, chain_field = Some chain,
                                   embeddings = Some emb, llm = Some l\<rparr>"
            using Some ex Inr ag agent triple store new by blast
          with res show ?thesis by blast
        qed
      qed
    qed
  qed
qed

theorem handlePdfUpload_failure_keeps_cache_witness:
  "handlePdfUpload demoEnv (Some pngFile) loadedWorld
     = (Inr (extractFailedPrefix @ unsupportedMessage), loadedWorld)
   \<and> extractFailedPrefix @ unsupportedMessage \<noteq> successMessage
   \<and> fst (chatWithBot demoEnv (js ''why?'') loadedWorld) = Inr (js ''ok'')
   \<and> fst (handlePdfUpload demoEnv (Some txtFile) world0) = Inr successMessage
   \<and> cache (snd (handlePdfUpload demoEnv (Some txtFile) world0)) \<noteq> cache world0
   \<and> cache (snd (handlePdfUpload demoEnv (Some txtFile) world0))
       = \<lparr>vectorStore = Some 1, chain_field = Some 1, embeddings = Some 2, llm = Some 1\<rparr>"
proof -
  have failed: "handlePdfUpload demoEnv (Some pngFile) loadedWorld
      = (Inr (extractFailedPrefix @ unsupportedMessage), loadedWorld)"
    by (rule handlePdfUpload_pngFile)
  have differ: "Inr (extractFailedPrefix @ unsupportedMessage) \<noteq> (Inr successMessage :: thrown + jsstring)"
    by (simp add: failure_is_not_success)
  have answer: "fst (chatWithBot demoEnv (js ''why?'') loadedWorld) = Inr (js ''ok'')"
    by (simp add: chatWithBot_run loadedWorld_def demoEnv_def normalizeResponse_def
        contentAnswer_def)
  have changed: "cache (snd (handlePdfUpload demoEnv (Some txtFile) world0)) \<noteq> cache world0"
    by (simp add: handlePdfUpload_txtFile) (simp add: world0_def emptyCache_def)
  from handlePdfUpload_failure_keeps_cache [OF failed, of "js ''why?''"] differ answer
    handlePdfUpload_failure_keeps_cache [OF handlePdfUpload_txtFile, of "js ''why?''"] changed
  show ?thesis
    by (simp add: handlePdfUpload_txtFile failed failure_is_not_success)
qed

text \<open>
  C2 on the code: a \<open>text/plain\<close> file is decoded and returned with no test of the
  result, so a file of no bytes, or of a space and a line feed (which \<open>trim\<close> empties),
  is extracted successfully and the upload reports success; the PDF and DOCX paths
  refuse such a text (\<open>extractText_pdf_parsed\<close>, \<open>extractText_docx\<close>).
\<close>

theorem plain_text_empty_accepted:
  "extractText demoEnv emptyTxtFile world0 = (Inr [], world0)
   \<and> fst (handlePdfUpload demoEnv (Some emptyTxtFile) world0)
       = Inr (js ''Document uploaded and processed successfully!'')
   \<and> extractText demoEnv blankTxtFile world0 = (Inr [0x20, 0x0A], world0)
   \<and> trim [0x20, 0x0A] = []
   \<and> fst (handlePdfUpload demoEnv (Some blankTxtFile) world0)
       = Inr (js ''Document uploaded and processed successfully!'')"
proof -
  have empty: "extractText demoEnv emptyTxtFile world0 = (Inr [], world0)"
    by (simp add: extractText_plain emptyTxtFile_def) (simp add: demoEnv_def)
  have blank: "extractText demoEnv blankTxtFile world0 = (Inr [0x20, 0x0A], world0)"
    by (simp add: extractText_plain blankTxtFile_def) (simp add: demoEnv_def)
  have "trim [0x20, 0x0A] = []"
    by (simp add: trim_def isTrimmed_def isWhiteSpace_def isLineTerminator_def)
  moreover have "fst (handlePdfUpload demoEnv (Some emptyTxtFile) world0) = Inr successMessage"
    by (simp add: handlePdfUpload_run empty createGroqAgent_demoEnv fromTexts_demoEnv)
  moreover have "fst (handlePdfUpload demoEnv (Some blankTxtFile) world0) = Inr successMessage"
    by (simp add: handlePdfUpload_run blank createGroqAgent_demoEnv fromTexts_demoEnv)
  ultimately show ?thesis
    using empty blank by (simp add: successMessage_def)
qed

subsection \<open>Normalising the response of the model\<close>

lemma modelAnswers_sel:
  "getRelevantDocuments (modelAnswers r) vs k q = Inr []"
  "llm_invoke (modelAnswers r) l messages = Inr r"
  "Number_toString (modelAnswers r) n = js ''7''"
  by (simp_all add: modelAnswers_def demoEnv_def)

lemma loadedWorld_sel:
  "vectorStore (cache loadedWorld) = Some 1" "llm (cache loadedWorld) = Some 1"
  by (simp_all add: loadedWorld_def)

lemma chatWithBot_modelAnswers:
  "fst (chatWithBot (modelAnswers r) q loadedWorld) = normalizeResponse (modelAnswers r) r"
  by (simp add: chatWithBot_run loadedWorld_sel modelAnswers_sel)

text \<open>
  What the normalisation does where nothing throws: a string response and a string
  \<open>content\<close> are the answer as they are, and an array \<open>content\<close> whose parts are strings
  or objects with a string \<open>text\<close> gives the concatenation of these strings, in order.
\<close>

lemma partText_text:
  "partText num (JStr s) = Inr s"
  "map_of kvs (js ''text'') = Some (JStr t) \<Longrightarrow> partText num (JObj kvs) = Inr t"
  "map_of kvs (js ''text'') = None \<Longrightarrow> partText num (JObj kvs) = Inr []"
  by simp_all

text \<open>
  C3 on the code: the comment over the normalisation says that a string is always
  returned, but three shapes of the response make \<open>chatWithBot\<close> throw a \<open>TypeError\<close>
  that it does not catch. An array \<open>content\<close> with a part whose \<open>text\<close> is an object
  with an own property \<open>toString\<close>, and a \<open>content\<close> that is such an object, throw in
  \<open>String\<close>; a \<open>null\<close> response throws where \<open>response.content\<close> is read. On a
  response of mixed string, text and other parts the answer is the concatenation of the
  strings and texts, in order.
\<close>

theorem chatWithBot_raises_on_response_shape:
  "fst (chatWithBot
          (modelAnswers (JObj [(js ''content'',
             JArr [JStr (js ''a''),
                   JObj [(js ''type'', JStr (js ''text'')),
                         (js ''text'', JObj [(js ''toString'', JStr (js ''x''))])]])]))
          (js ''why?'') loadedWorld)
     = Inl (JsError (js ''Cannot convert object to primitive value''))
   \<and> fst (chatWithBot
          (modelAnswers (JObj [(js ''content'', JObj [(js ''toString'', JStr (js ''x''))])]))
          (js ''why?'') loadedWorld)
     = Inl (JsError (js ''Cannot convert object to primitive value''))
   \<and> fst (chatWithBot (modelAnswers JNull) (js ''why?'') loadedWorld)
     = Inl (JsError (js ''Cannot read properties of null (reading '' @ [0x27] @ js ''content''
                     @ [0x27] @ js '')''))
   \<and> fst (chatWithBot
          (modelAnswers (JObj [(js ''content'',
             JArr [JStr (js ''a''),
                   JObj [(js ''type'', JStr (js ''text'')), (js ''text'', JStr (js ''b''))],
                   JObj [(js ''type'', JStr (js ''image_url''))],
                   JNum ()])]))
          (js ''why?'') loadedWorld)
     = Inr (js ''ab'')"
proof -
  have keys: "js ''type'' \<noteq> js ''text''" "js ''text'' \<noteq> js ''type''"
    by (simp_all add: js_def)
  have part: "fst (chatWithBot
          (modelAnswers (JObj [(js ''content'',
             JArr [JStr (js ''a''),
                   JObj [(js ''type'', JStr (js ''text'')),
                         (js ''text'', JObj [(js ''toString'', JStr (js ''x''))])]])]))
          (js ''why?'') loadedWorld) = Inl cannotConvert"
    by (simp add: chatWithBot_modelAnswers normalizeResponse_def contentAnswer_def hasOwn_def
        keys)
  have content: "fst (chatWithBot
          (modelAnswers (JObj [(js ''content'', JObj [(js ''toString'', JStr (js ''x''))])]))
          (js ''why?'') loadedWorld) = Inl cannotConvert"
    by (simp add: chatWithBot_modelAnswers normalizeResponse_def contentAnswer_def hasOwn_def)
  have null: "fst (chatWithBot (modelAnswers JNull) (js ''why?'') loadedWorld)
      = Inl (readTypeError (js ''null'') (js ''content''))"
    by (simp add: chatWithBot_modelAnswers normalizeResponse_def)
  have message: "readTypeError (js ''null'') (js ''content'')
      = JsError (js ''Cannot read properties of null (reading '' @ [0x27] @ js ''content''
                 @ [0x27] @ js '')'')"
    by (simp add: readTypeError_def js_def)
  have mixed: "fst (chatWithBot
          (modelAnswers (JObj [(js ''content'',
             JArr [JStr (js ''a''),
                   JObj [(js ''type'', JStr (js ''text'')), (js ''text'', JStr (js ''b''))],
                   JObj [(js ''type'', JStr (js ''image_url''))],
                   JNum ()])]))
          (js ''why?'') loadedWorld) = Inr (js ''ab'')"
    by (simp add: chatWithBot_modelAnswers normalizeResponse_def contentAnswer_def keys)
       (simp add: js_def)
  from part content null mixed show ?thesis
    by (simp add: cannotConvert_def message)
qed

end
